theory Spec2Isabelle
  imports Main
begin

section \<open>The authentication signal\<close>

text \<open>
  \<^verbatim>\<open>AppRouter.tsx\<close> reads the signal with \<^verbatim>\<open>useAuth()\<close> and destructures three
  fields of it. The context that provides it lives in \<^verbatim>\<open>../contexts/AuthContext\<close>, which
  is not part of the file under study, so the type of the user object is a type
  parameter: \<open>None\<close> is the falsy \<^verbatim>\<open>null\<close>, \<open>Some u\<close> a user object (truthy). The
  record is extensible, for whatever else the context carries.

  The role is a JavaScript value that is a string or missing. The gate tests it for
  truthiness, and the empty string is falsy, so the three falsy values are kept apart
  from the non-empty strings.
\<close>

datatype role_value = Null | Undefined | Str string

record 'u AuthContext =
  currentUser :: "'u option"
  userRole :: role_value
  loading :: bool

text \<open>The truthiness of a role value: \<^verbatim>\<open>null\<close>, \<^verbatim>\<open>undefined\<close> and \<^verbatim>\<open>""\<close> are falsy.\<close>

fun truthy :: "role_value \<Rightarrow> bool" where
  "truthy Null = False"
| "truthy Undefined = False"
| "truthy (Str s) = (s \<noteq> [])"

text \<open>
  \<^verbatim>\<open>allowedRoles.includes(userRole)\<close> on a \<^verbatim>\<open>string[]\<close>: strings are compared code
  unit by code unit; an array of strings holds neither \<^verbatim>\<open>null\<close> nor \<^verbatim>\<open>undefined\<close>.
\<close>

fun array_includes :: "string list \<Rightarrow> role_value \<Rightarrow> bool" where
  "array_includes xs (Str s) = (s \<in> set xs)"
| "array_includes xs Null = False"
| "array_includes xs Undefined = False"

text \<open>What a template literal prints for \<^verbatim>\<open>${userRole}\<close>.\<close>

fun to_str :: "role_value \<Rightarrow> string" where
  "to_str Null = ''null''"
| "to_str Undefined = ''undefined''"
| "to_str (Str s) = s"

text \<open>\<^verbatim>\<open>allowedRoles.join(', ')\<close>.\<close>

fun array_join :: "string \<Rightarrow> string list \<Rightarrow> string" where
  "array_join sep [] = []"
| "array_join sep [x] = x"
| "array_join sep (x # y # ys) = x @ sep @ array_join sep (y # ys)"

section \<open>The access gate\<close>

text \<open>
  What a render of the gate returns: the loading placeholder, a \<^verbatim>\<open><Navigate to=.../>\<close>
  element, or the children it was given. The lines written with \<^verbatim>\<open>console.log\<close> during
  the render are returned beside it, in order.
\<close>

datatype 'c outcome = Placeholder | Redirect string | Show 'c

definition ProtectedRoute ::
  "('u, 'z) AuthContext_scheme \<Rightarrow> string list \<Rightarrow> 'c \<Rightarrow> 'c outcome \<times> string list" where
  "ProtectedRoute auth allowedRoles children =
     (if loading auth then (Placeholder, [])
      else if currentUser auth = None then
        (Redirect ''/login'', [''User not authenticated, redirecting to login''])
      else if truthy (userRole auth) \<and> array_includes allowedRoles (userRole auth) then
        (Show children,
         [''User has required role: '' @ to_str (userRole auth) @ '', allowing access''])
      else
        (Redirect ''/unauthorized'',
         [''User role '' @ to_str (userRole auth) @ '' not in allowed roles: ''
            @ array_join '', '' allowedRoles]))"

section \<open>The route table\<close>

text \<open>
  The page components, one constant for each \<^verbatim>\<open>React.lazy\<close> import. A lazy view may
  suspend while it is fetched, and the surrounding \<^verbatim>\<open>Suspense\<close> then shows its
  fallback; which view a route selects does not depend on that, and the fetch is not
  modelled.
\<close>

datatype view =
  Login | Register | Dashboard | YouthProfiles | YouthDetail | FosterParents | Reports
  | UserManagement | MedicationLog | ThemeSettings | AgencySettings | NotFound | Unauthorized

text \<open>
  The three shapes of \<^verbatim>\<open>element\<close> that the table uses: a page on its own, a
  \<^verbatim>\<open><Navigate to=.../>\<close>, and a page wrapped in \<^verbatim>\<open><ProtectedRoute allowedRoles=...>\<close>.
\<close>

datatype element = Page view | Navigate string | Protected "string list" view

record route =
  path :: string
  element :: element

text \<open>The children of \<^verbatim>\<open><Routes>\<close>, in the order in which they are written.\<close>

definition routes :: "route list" where
  "routes =
     [\<lparr>path = ''/login'', element = Page Login\<rparr>,
      \<lparr>path = ''/register'', element = Page Register\<rparr>,
      \<lparr>path = ''/'', element = Protected [''admin'', ''worker'', ''foster_parent''] Dashboard\<rparr>,
      \<lparr>path = '''', element = Navigate ''/login''\<rparr>,
      \<lparr>path = ''/user-management'', element = Protected [''admin''] UserManagement\<rparr>,
      \<lparr>path = ''/reports'', element = Protected [''admin'', ''worker''] Reports\<rparr>,
      \<lparr>path = ''/reports-overview'', element = Protected [''admin'', ''worker''] Reports\<rparr>,
      \<lparr>path = ''/youth-profiles'', element = Protected [''admin'', ''worker''] YouthProfiles\<rparr>,
      \<lparr>path = ''/youth-profiles/:id'',
        element = Protected [''admin'', ''worker'', ''foster_parent''] YouthDetail\<rparr>,
      \<lparr>path = ''/foster-parents'', element = Protected [''admin'', ''worker''] FosterParents\<rparr>,
      \<lparr>path = ''/my-youth'', element = Protected [''foster_parent''] YouthProfiles\<rparr>,
      \<lparr>path = ''/medication-logs/:youthId'',
        element = Protected [''admin'', ''worker'', ''foster_parent''] MedicationLog\<rparr>,
      \<lparr>path = ''/theme-settings'',
        element = Protected [''admin'', ''worker'', ''foster_parent''] ThemeSettings\<rparr>,
      \<lparr>path = ''/agency-settings'', element = Protected [''admin''] AgencySettings\<rparr>,
      \<lparr>path = ''/unauthorized'', element = Page Unauthorized\<rparr>,
      \<lparr>path = ''*'', element = Page NotFound\<rparr>]"

text \<open>Rendering the element of the selected route under a signal.\<close>

fun render :: "('u, 'z) AuthContext_scheme \<Rightarrow> element \<Rightarrow> view outcome \<times> string list" where
  "render auth (Page v) = (Show v, [])"
| "render auth (Navigate target) = (Redirect target, [])"
| "render auth (Protected allowedRoles v) = ProtectedRoute auth allowedRoles v"

text \<open>
  \<^verbatim>\<open><Routes>\<close> comes from \<^verbatim>\<open>react-router-dom\<close>, whose code is not in the repository.
  The test that says whether a path pattern matches a location is therefore a
  parameter, \<open>matchPath\<close>. Among the routes that match, the one written first is taken:
  the library ranks the patterns and decides a tie between siblings by their order, and
  in this table the patterns that can match one location are \<^verbatim>\<open>"/"\<close> with \<^verbatim>\<open>""\<close>,
  which tie, and \<^verbatim>\<open>"*"\<close>, which ranks last and is written last. \<open>None\<close> is a
  location that no route matches, for which nothing is rendered.
\<close>

definition Routes :: "(string \<Rightarrow> string \<Rightarrow> bool) \<Rightarrow> route list \<Rightarrow> string \<Rightarrow> route option" where
  "Routes matchPath rs location = find (\<lambda>r. matchPath (path r) location) rs"

definition AppRouter ::
  "(string \<Rightarrow> string \<Rightarrow> bool) \<Rightarrow> string \<Rightarrow> ('u, 'z) AuthContext_scheme
     \<Rightarrow> (view outcome \<times> string list) option" where
  "AppRouter matchPath location auth =
     map_option (\<lambda>r. render auth (element r)) (Routes matchPath routes location)"

subsection \<open>Two matchers\<close>


fun split_slash :: "string \<Rightarrow> string list" where
  "split_slash [] = [[]]"
| "split_slash (c # cs) =
     (if c = CHR ''/'' then [] # split_slash cs
      else (case split_slash cs of [] \<Rightarrow> [[c]] | s # ss \<Rightarrow> (c # s) # ss))"

definition segments :: "string \<Rightarrow> string list" where
  "segments p = filter (\<lambda>s. s \<noteq> []) (split_slash p)"

fun is_param :: "string \<Rightarrow> bool" where
  "is_param [] = False"
| "is_param (c # cs) = (c = CHR '':'')"

fun match_segments :: "string list \<Rightarrow> string list \<Rightarrow> bool" where
  "match_segments [] ls = (ls = [])"
| "match_segments (p # ps) ls =
     (if p = ''*'' then True
      else (case ls of [] \<Rightarrow> False | l # ls' \<Rightarrow> (is_param p \<or> p = l) \<and> match_segments ps ls'))"

definition segment_match :: "string \<Rightarrow> string \<Rightarrow> bool" where
  "segment_match pattern location = match_segments (segments pattern) (segments location)"

section \<open>Role names compared loosely\<close>

text \<open>
  The gate has no comparison other than the exact one of \<open>array_includes\<close>. The
  relation below is not in the code: it says what "the same role name up to letter case
  and surrounding white space" means, so that the exactness of the gate can be stated
  against it.
\<close>

definition lower_char :: "char \<Rightarrow> char" where
  "lower_char c =
     (case map_of (zip ''ABCDEFGHIJKLMNOPQRSTUVWXYZ'' ''abcdefghijklmnopqrstuvwxyz'') c of
        Some d \<Rightarrow> d
      | None \<Rightarrow> c)"

definition is_space :: "char \<Rightarrow> bool" where
  "is_space c = (c \<in> set [CHR '' '', CHR 0x09, CHR 0x0A, CHR 0x0D])"

definition trim :: "string \<Rightarrow> string" where
  "trim s = rev (dropWhile is_space (rev (dropWhile is_space s)))"

definition loosely_equal :: "string \<Rightarrow> string \<Rightarrow> bool" where
  "loosely_equal a b = (map lower_char (trim a) = map lower_char (trim b))"

section \<open>Properties of the access gate\<close>

text \<open>
  C1, as amended. For a signal with \<open>loading\<close> false and \<open>currentUser\<close> present,
  the gate renders the wrapped child exactly when \<open>userRole\<close> is a non-empty string
  that is a member of the permitted roles; in every other such case it redirects, to
  \<^verbatim>\<open>/unauthorized\<close>.
\<close>

theorem gate_grants_iff_nonempty_member:
  "\<not> loading auth \<Longrightarrow> currentUser auth = Some u \<Longrightarrow>
     (fst (ProtectedRoute auth allowedRoles children) = Show children
        \<longleftrightarrow> truthy (userRole auth) \<and> array_includes allowedRoles (userRole auth))
     \<and> (fst (ProtectedRoute auth allowedRoles children) \<noteq> Show children
        \<longrightarrow> fst (ProtectedRoute auth allowedRoles children) = Redirect ''/unauthorized'')"
  by (simp add: ProtectedRoute_def)

theorem gate_grants_iff_nonempty_member_witness:
  "\<not> loading \<lparr>currentUser = Some (), userRole = Str ''worker'', loading = False\<rparr>
   \<and> currentUser \<lparr>currentUser = Some (), userRole = Str ''worker'', loading = False\<rparr> = Some ()
   \<and> truthy (Str ''worker'') \<and> array_includes [''admin'', ''worker''] (Str ''worker'')
   \<and> fst (ProtectedRoute \<lparr>currentUser = Some (), userRole = Str ''worker'', loading = False\<rparr>
        [''admin'', ''worker''] YouthProfiles) = Show YouthProfiles
   \<and> fst (ProtectedRoute \<lparr>currentUser = Some (), userRole = Str ''foster_parent'', loading = False\<rparr>
        [''admin'', ''worker''] YouthProfiles) = Redirect ''/unauthorized''"
  using gate_grants_iff_nonempty_member
    [of "\<lparr>currentUser = Some (), userRole = Str ''worker'', loading = False\<rparr>" "()"
        "[''admin'', ''worker'']" "YouthProfiles"]
    gate_grants_iff_nonempty_member
    [of "\<lparr>currentUser = Some (), userRole = Str ''foster_parent'', loading = False\<rparr>" "()"
        "[''admin'', ''worker'']" "YouthProfiles"]
  by simp

text \<open>
  C1 as it is written fails where the role is the empty string and the empty string is
  permitted: the role is a member of the list, and the gate still redirects.
\<close>

theorem gate_grants_iff_member_counterexample:
  "\<not> (fst (ProtectedRoute \<lparr>currentUser = Some (), userRole = Str '''', loading = False\<rparr>
          [''''] Dashboard) = Show Dashboard
       \<longleftrightarrow> array_includes [''''] (Str ''''))"
  by (simp add: ProtectedRoute_def)

text \<open>
  C2. Whatever \<open>currentUser\<close> and \<open>userRole\<close> are and whatever roles are permitted,
  a signal with \<open>loading\<close> true makes the gate return the loading placeholder: the
  outcome is neither the child view nor a redirect, to \<^verbatim>\<open>/login\<close>, to
  \<^verbatim>\<open>/unauthorized\<close> or anywhere else, and nothing is logged.
\<close>

theorem gate_loading_placeholder:
  "loading auth \<Longrightarrow>
     ProtectedRoute auth allowedRoles children = (Placeholder, [])
     \<and> fst (ProtectedRoute auth allowedRoles children) \<noteq> Show children
     \<and> (\<forall>target. fst (ProtectedRoute auth allowedRoles children) \<noteq> Redirect target)"
  by (simp add: ProtectedRoute_def)

theorem gate_loading_placeholder_witness:
  "loading \<lparr>currentUser = Some (), userRole = Str ''admin'', loading = True\<rparr>
   \<and> ProtectedRoute \<lparr>currentUser = Some (), userRole = Str ''admin'', loading = True\<rparr>
        [''admin''] UserManagement = (Placeholder, [])"
  using gate_loading_placeholder
    [of "\<lparr>currentUser = Some (), userRole = Str ''admin'', loading = True\<rparr>"
        "[''admin'']" "UserManagement"]
  by simp

text \<open>
  C3. With \<open>loading\<close> false and \<open>currentUser\<close> absent the gate redirects to
  \<^verbatim>\<open>/login\<close>, whatever the permitted roles and the role are: not to
  \<^verbatim>\<open>/unauthorized\<close>, and neither the child view nor the placeholder is returned.
\<close>

theorem gate_unauthenticated_login:
  "\<not> loading auth \<Longrightarrow> currentUser auth = None \<Longrightarrow>
     fst (ProtectedRoute auth allowedRoles children) = Redirect ''/login''
     \<and> fst (ProtectedRoute auth allowedRoles children) \<noteq> Redirect ''/unauthorized''
     \<and> fst (ProtectedRoute auth allowedRoles children) \<noteq> Show children
     \<and> fst (ProtectedRoute auth allowedRoles children) \<noteq> Placeholder"
  by (simp add: ProtectedRoute_def)

theorem gate_unauthenticated_login_witness:
  "\<not> loading \<lparr>currentUser = (None :: unit option), userRole = Null, loading = False\<rparr>
   \<and> fst (ProtectedRoute \<lparr>currentUser = (None :: unit option), userRole = Null, loading = False\<rparr>
        [''admin'', ''worker''] Reports) = Redirect ''/login''"
  using gate_unauthenticated_login
    [of "\<lparr>currentUser = (None :: unit option), userRole = Null, loading = False\<rparr>"
        "[''admin'', ''worker'']" "Reports"]
  by simp

text \<open>
  C4. With \<open>loading\<close> false, \<open>currentUser\<close> present and \<open>userRole\<close> a string that
  is not among the permitted roles, the gate redirects to \<^verbatim>\<open>/unauthorized\<close>. The
  witness is the role \<^verbatim>\<open>foster_parent\<close> on a route that permits \<^verbatim>\<open>admin\<close> and
  \<^verbatim>\<open>worker\<close> only.
\<close>

theorem gate_wrong_role_unauthorized:
  "\<not> loading auth \<Longrightarrow> currentUser auth = Some u \<Longrightarrow> userRole auth = Str r \<Longrightarrow>
   r \<notin> set allowedRoles \<Longrightarrow>
     fst (ProtectedRoute auth allowedRoles children) = Redirect ''/unauthorized''"
  by (simp add: ProtectedRoute_def)

theorem gate_wrong_role_unauthorized_witness:
  "''foster_parent'' \<notin> set [''admin'', ''worker'']
   \<and> fst (ProtectedRoute \<lparr>currentUser = Some (), userRole = Str ''foster_parent'', loading = False\<rparr>
        [''admin'', ''worker''] Reports) = Redirect ''/unauthorized''"
  using gate_wrong_role_unauthorized
    [of "\<lparr>currentUser = Some (), userRole = Str ''foster_parent'', loading = False\<rparr>" "()"
        "''foster_parent''" "[''admin'', ''worker'']" "Reports"]
  by simp



text \<open>
  C9. With \<open>loading\<close> false and \<open>currentUser\<close> present, a role that is
  \<^verbatim>\<open>null\<close>, \<^verbatim>\<open>undefined\<close> or the empty string is redirected to
  \<^verbatim>\<open>/unauthorized\<close> and the child is not rendered, whatever the permitted roles are,
  a list that contains the empty string included: the role has to be truthy before
  membership is looked at.
\<close>

theorem gate_missing_role_unauthorized:
  "\<not> loading auth \<Longrightarrow> currentUser auth = Some u \<Longrightarrow>
   userRole auth \<in> {Null, Undefined, Str ''''} \<Longrightarrow>
     fst (ProtectedRoute auth allowedRoles children) = Redirect ''/unauthorized''
     \<and> fst (ProtectedRoute auth allowedRoles children) \<noteq> Show children"
  by (auto simp add: ProtectedRoute_def)

theorem gate_missing_role_unauthorized_witness:
  "Str '''' \<in> {Null, Undefined, Str ''''} \<and> '''' \<in> set ['''', ''admin'']
   \<and> fst (ProtectedRoute \<lparr>currentUser = Some (), userRole = Str '''', loading = False\<rparr>
        ['''', ''admin''] UserManagement) = Redirect ''/unauthorized''"
  using gate_missing_role_unauthorized
    [of "\<lparr>currentUser = Some (), userRole = Str '''', loading = False\<rparr>" "()"
        "['''', ''admin'']" "UserManagement"]
  by simp

text \<open>
  C10. Membership is exact equality of strings. With \<open>loading\<close> false and
  \<open>currentUser\<close> present, a role \<open>r\<close> is granted access exactly when it is non-empty
  and some permitted role equals it; a role that equals a permitted one only up to
  letter case or surrounding white space, and none exactly, is redirected to
  \<^verbatim>\<open>/unauthorized\<close>.
\<close>

theorem gate_membership_exact:
  "\<not> loading auth \<Longrightarrow> currentUser auth = Some u \<Longrightarrow> userRole auth = Str r \<Longrightarrow>
     (fst (ProtectedRoute auth allowedRoles children) = Show children
        \<longleftrightarrow> r \<noteq> [] \<and> (\<exists>p \<in> set allowedRoles. p = r))
     \<and> ((\<exists>p \<in> set allowedRoles. loosely_equal r p) \<and> (\<forall>p \<in> set allowedRoles. p \<noteq> r)
        \<longrightarrow> fst (ProtectedRoute auth allowedRoles children) = Redirect ''/unauthorized'')"
  by (auto simp add: ProtectedRoute_def)

theorem gate_membership_exact_witness:
  "loosely_equal ''Admin'' ''admin'' \<and> loosely_equal '' admin'' ''admin''
   \<and> fst (ProtectedRoute \<lparr>currentUser = Some (), userRole = Str ''Admin'', loading = False\<rparr>
        [''admin'', ''worker''] Reports) = Redirect ''/unauthorized''
   \<and> fst (ProtectedRoute \<lparr>currentUser = Some (), userRole = Str '' admin'', loading = False\<rparr>
        [''admin'', ''worker''] Reports) = Redirect ''/unauthorized''"
proof -
  have l1: "loosely_equal ''Admin'' ''admin''"
    by (simp add: loosely_equal_def trim_def is_space_def lower_char_def)
  have l2: "loosely_equal '' admin'' ''admin''"
    by (simp add: loosely_equal_def trim_def is_space_def lower_char_def)
  show ?thesis
    using l1 l2
      gate_membership_exact
        [of "\<lparr>currentUser = Some (), userRole = Str ''Admin'', loading = False\<rparr>" "()"
            "''Admin''" "[''admin'', ''worker'']" "Reports"]
      gate_membership_exact
        [of "\<lparr>currentUser = Some (), userRole = Str '' admin'', loading = False\<rparr>" "()"
            "'' admin''" "[''admin'', ''worker'']" "Reports"]
    by simp
qed

section \<open>Properties of the route table\<close>

lemma find_Some_member: "find P rs = Some r \<Longrightarrow> r \<in> set rs \<and> P r"
  by (induction rs) (auto split: if_splits)

lemma reports_entry:
  "r \<in> set routes \<Longrightarrow> path r = ''/reports'' \<Longrightarrow>
     element r = Protected [''admin'', ''worker''] Reports"
  by (auto simp add: routes_def)

lemma reports_overview_entry:
  "r \<in> set routes \<Longrightarrow> path r = ''/reports-overview'' \<Longrightarrow>
     element r = Protected [''admin'', ''worker''] Reports"
  by (auto simp add: routes_def)




text \<open>
  C7. A location that the catch-all pattern \<^verbatim>\<open>*\<close> matches and no other entry of the
  table does selects the catch-all entry, and the router shows NotFound for it under
  every signal, loading, unauthenticated or of any role: it does not redirect, it logs
  nothing, and a route is always found.
\<close>

theorem unmatched_path_not_found:
  "(\<forall>r \<in> set routes. path r \<noteq> ''*'' \<longrightarrow> \<not> matchPath (path r) location) \<Longrightarrow>
   matchPath ''*'' location \<Longrightarrow>
     Routes matchPath routes location = Some \<lparr>path = ''*'', element = Page NotFound\<rparr>
     \<and> AppRouter matchPath location auth = Some (Show NotFound, [])"
  by (simp add: AppRouter_def Routes_def routes_def)

theorem unmatched_path_not_found_witness:
  "segment_match ''*'' ''/nonexistent-path''
   \<and> AppRouter segment_match ''/nonexistent-path''
         \<lparr>currentUser = (None :: unit option), userRole = Null, loading = True\<rparr>
       = Some (Show NotFound, [])
   \<and> AppRouter segment_match ''/nonexistent-path''
         \<lparr>currentUser = (None :: unit option), userRole = Null, loading = False\<rparr>
       = Some (Show NotFound, [])
   \<and> AppRouter segment_match ''/nonexistent-path''
         \<lparr>currentUser = Some (), userRole = Str ''foster_parent'', loading = False\<rparr>
       = Some (Show NotFound, [])"
proof -
  have no_entry:
    "\<forall>r \<in> set routes. path r \<noteq> ''*'' \<longrightarrow> \<not> segment_match (path r) ''/nonexistent-path''"
    by code_simp
  have catch_all: "segment_match ''*'' ''/nonexistent-path''"
    by code_simp
  show ?thesis
    using no_entry catch_all
      unmatched_path_not_found [of segment_match "''/nonexistent-path''"
             "\<lparr>currentUser = (None :: unit option), userRole = Null, loading = True\<rparr>"]
      unmatched_path_not_found [of segment_match "''/nonexistent-path''"
             "\<lparr>currentUser = (None :: unit option), userRole = Null, loading = False\<rparr>"]
      unmatched_path_not_found [of segment_match "''/nonexistent-path''"
             "\<lparr>currentUser = Some (), userRole = Str ''foster_parent'', loading = False\<rparr>"]
    by blast
qed

text \<open>
  C8. The entries for \<^verbatim>\<open>/reports\<close> and \<^verbatim>\<open>/reports-overview\<close> carry the same
  element, the Reports view behind the gate that permits \<^verbatim>\<open>admin\<close> and
  \<^verbatim>\<open>worker\<close>: a location that selects the one and a location that selects the other
  get the same result, the gate's outcome for Reports, under every signal.
\<close>

theorem reports_paths_same_gate:
  "Routes matchPath routes location1 = Some r1 \<Longrightarrow> path r1 = ''/reports'' \<Longrightarrow>
   Routes matchPath routes location2 = Some r2 \<Longrightarrow> path r2 = ''/reports-overview'' \<Longrightarrow>
     element r1 = Protected [''admin'', ''worker''] Reports
     \<and> element r2 = element r1
     \<and> AppRouter matchPath location1 auth = AppRouter matchPath location2 auth
     \<and> AppRouter matchPath location1 auth
         = Some (ProtectedRoute auth [''admin'', ''worker''] Reports)"
proof -
  assume s1: "Routes matchPath routes location1 = Some r1" and p1: "path r1 = ''/reports''"
    and s2: "Routes matchPath routes location2 = Some r2" and p2: "path r2 = ''/reports-overview''"
  from s1 have "r1 \<in> set routes"
    unfolding Routes_def by (rule find_Some_member [THEN conjunct1])
  then have e1: "element r1 = Protected [''admin'', ''worker''] Reports"
    using p1 by (rule reports_entry)
  from s2 have "r2 \<in> set routes"
    unfolding Routes_def by (rule find_Some_member [THEN conjunct1])
  then have e2: "element r2 = Protected [''admin'', ''worker''] Reports"
    using p2 by (rule reports_overview_entry)
  show ?thesis
    using s1 s2 e1 e2 by (simp add: AppRouter_def)
qed

theorem reports_paths_same_gate_witness:
  "Routes segment_match routes ''/reports''
     = Some \<lparr>path = ''/reports'', element = Protected [''admin'', ''worker''] Reports\<rparr>
   \<and> Routes segment_match routes ''/reports-overview''
     = Some \<lparr>path = ''/reports-overview'', element = Protected [''admin'', ''worker''] Reports\<rparr>
   \<and> AppRouter segment_match ''/reports''
         \<lparr>currentUser = Some (), userRole = Str ''worker'', loading = False\<rparr>
     = AppRouter segment_match ''/reports-overview''
         \<lparr>currentUser = Some (), userRole = Str ''worker'', loading = False\<rparr>
   \<and> AppRouter segment_match ''/reports''
         \<lparr>currentUser = Some (), userRole = Str ''worker'', loading = False\<rparr>
     = Some (Show Reports, [''User has required role: worker, allowing access''])"
proof -
  have s1: "Routes segment_match routes ''/reports''
     = Some \<lparr>path = ''/reports'', element = Protected [''admin'', ''worker''] Reports\<rparr>"
    by code_simp
  have s2: "Routes segment_match routes ''/reports-overview''
     = Some \<lparr>path = ''/reports-overview'', element = Protected [''admin'', ''worker''] Reports\<rparr>"
    by code_simp
  have p1: "path \<lparr>path = ''/reports'', element = Protected [''admin'', ''worker''] Reports\<rparr>
      = ''/reports''"
    by simp
  have p2:
    "path \<lparr>path = ''/reports-overview'', element = Protected [''admin'', ''worker''] Reports\<rparr>
      = ''/reports-overview''"
    by simp
  have granted:
    "ProtectedRoute \<lparr>currentUser = Some (), userRole = Str ''worker'', loading = False\<rparr>
       [''admin'', ''worker''] Reports
     = (Show Reports, [''User has required role: worker, allowing access''])"
    by (simp add: ProtectedRoute_def)
  from reports_paths_same_gate [OF s1 p1 s2 p2,
      of "\<lparr>currentUser = Some (), userRole = Str ''worker'', loading = False\<rparr>"]
  show ?thesis
    using s1 s2 unfolding granted by blast
qed

end
